theory Spec2Isabelle
  imports
    Main
    "HOL-Library.Word"
    "HOL-Library.Multiset"
    "HOL-Library.Char_ord"
    "HOL-Library.List_Lexorder"
begin

unbundle bit_operations_syntax

section \<open>The games catalogue: data model\<close>

text \<open>
  The program is \<^verbatim>\<open>src/lambda/lambda_function.py\<close>: one request handler over one
  DynamoDB table, keyed by the partition key \<^verbatim>\<open>platform\<close> and the sort key
  \<^verbatim>\<open>game_id\<close>.

  An attribute value the program stores is a Python string or \<^verbatim>\<open>None\<close>
  (\<^verbatim>\<open>body.get("genre")\<close> of an absent field), which the store keeps as a string and as
  its null value.
\<close>

datatype attr = S string | NULL

text \<open>
  An item of the table. The two key attributes are strings in every item (the table's key
  schema), so they are fields; every other attribute (\<^verbatim>\<open>game_name\<close>, \<^verbatim>\<open>genre\<close>,
  \<^verbatim>\<open>year\<close>, \<^verbatim>\<open>status\<close>, \<^verbatim>\<open>added_date\<close>) is in the dictionary \<open>attrs\<close>, where
  an absent attribute is \<open>None\<close>.
\<close>

record item =
  platform :: string
  game_id :: string
  attrs :: "string \<rightharpoonup> attr"

type_synonym table = "item list"

text \<open>A request body after parsing: a Python dictionary from field names to strings.\<close>

type_synonym body = "string \<rightharpoonup> string"

text \<open>The exceptions the program raises or meets, with the text \<^verbatim>\<open>str(e)\<close> gives.\<close>

datatype exn =
    ValueError string
  | KeyError string
  | IndexError string
  | TemplateError string

fun str_exn :: "exn \<Rightarrow> string" where
  "str_exn (ValueError m) = m"
| "str_exn (KeyError k) = [CHR 0x27] @ k @ [CHR 0x27]"
| "str_exn (IndexError m) = m"
| "str_exn (TemplateError m) = m"

section \<open>The storage collaborator\<close>

text \<open>
  The table is a list of items; the composite key of an item is the pair of its key
  attributes. The five operations below are the calls the program makes on
  \<^verbatim>\<open>boto3\<close>'s table object: \<^verbatim>\<open>put_item\<close> replaces the item with the same key or adds
  one, \<^verbatim>\<open>delete_item\<close> removes by key and does nothing for an absent key,
  \<^verbatim>\<open>update_item\<close> with \<^verbatim>\<open>SET #s = :owned\<close> sets the status of the item with the key
  and creates an item of the key and the status alone when there is none, \<^verbatim>\<open>scan\<close>
  and \<^verbatim>\<open>query\<close> return the items that pass the filter (of one partition, for a
  query). Every call is taken to succeed and to return all its items in one page. The
  store fixes no order for a scan; the properties below are stated on multisets and sets
  of items, so they do not depend on the order the model returns.
\<close>

definition key_of :: "item \<Rightarrow> string \<times> string" where
  "key_of it = (platform it, game_id it)"

definition put_item :: "item \<Rightarrow> table \<Rightarrow> table" where
  "put_item new tbl =
     (if key_of new \<in> set (map key_of tbl)
      then map (\<lambda>it. if key_of it = key_of new then new else it) tbl
      else tbl @ [new])"

definition delete_item :: "string \<Rightarrow> string \<Rightarrow> table \<Rightarrow> table" where
  "delete_item p g tbl = filter (\<lambda>it. key_of it \<noteq> (p, g)) tbl"

definition update_item_set_status :: "string \<Rightarrow> string \<Rightarrow> string \<Rightarrow> table \<Rightarrow> table" where
  "update_item_set_status p g v tbl =
     (if (p, g) \<in> set (map key_of tbl)
      then map (\<lambda>it. if key_of it = (p, g)
                      then it\<lparr>attrs := (attrs it)(''status'' \<mapsto> S v)\<rparr> else it) tbl
      else tbl @ [\<lparr>platform = p, game_id = g, attrs = [''status'' \<mapsto> S v]\<rparr>])"

text \<open>The filter \<^verbatim>\<open>attribute_not_exists(#s) OR #s = :owned\<close>.\<close>

definition owned_filter :: "item \<Rightarrow> bool" where
  "owned_filter it = (attrs it ''status'' = None \<or> attrs it ''status'' = Some (S ''owned''))"

text \<open>The filter \<^verbatim>\<open>#s = :wishlist\<close>.\<close>

definition wishlist_filter :: "item \<Rightarrow> bool" where
  "wishlist_filter it = (attrs it ''status'' = Some (S ''wishlist''))"

section \<open>Identifiers and the clock\<close>

text \<open>
  \<^verbatim>\<open>uuid.uuid4()\<close> takes 16 random bytes, as a 128-bit number, and sets the variant and
  version bits; \<^verbatim>\<open>str\<close> prints the number as 32 lower-case hexadecimal digits in groups
  of 8, 4, 4, 4 and 12. The random bytes are an input of the model, as is the text of
  \<^verbatim>\<open>datetime.now().isoformat()\<close>.
\<close>

definition uuid4 :: "128 word \<Rightarrow> 128 word" where
  "uuid4 rnd =
     (let i1 = rnd AND NOT (push_bit 48 0xc000);
          i2 = i1 OR push_bit 48 0x8000;
          i3 = i2 AND NOT (push_bit 64 0xf000)
      in i3 OR push_bit 76 4)"

definition hex_digit :: "nat \<Rightarrow> char" where
  "hex_digit n = ''0123456789abcdef'' ! (n mod 16)"

definition hex32 :: "128 word \<Rightarrow> string" where
  "hex32 w = map (\<lambda>i. hex_digit (unat (drop_bit (4 * (31 - i)) w AND 0xf))) [0..<32]"

definition str_uuid :: "128 word \<Rightarrow> string" where
  "str_uuid w =
     (let h = hex32 w
      in take 8 h @ ''-'' @ take 4 (drop 8 h) @ ''-'' @ take 4 (drop 12 h) @ ''-''
         @ take 4 (drop 16 h) @ ''-'' @ drop 20 h)"

section \<open>The data access functions\<close>

text \<open>Python's truth value of \<^verbatim>\<open>body.get(k)\<close>: false for \<^verbatim>\<open>None\<close> and for the empty string.\<close>

definition truthy :: "string option \<Rightarrow> bool" where
  "truthy v = (case v of None \<Rightarrow> False | Some s \<Rightarrow> s \<noteq> [])"

text \<open>How a value of \<^verbatim>\<open>body.get(k)\<close> is stored: \<^verbatim>\<open>None\<close> as the null value.\<close>

definition to_attr :: "string option \<Rightarrow> attr" where
  "to_attr v = (case v of None \<Rightarrow> NULL | Some s \<Rightarrow> S s)"

definition get_all_games_data :: "table \<Rightarrow> item list" where
  "get_all_games_data tbl = filter owned_filter tbl"

definition get_games_by_platform_data :: "string \<Rightarrow> table \<Rightarrow> item list" where
  "get_games_by_platform_data p tbl = filter (\<lambda>it. platform it = p \<and> owned_filter it) tbl"

definition get_wishlist_data :: "table \<Rightarrow> item list" where
  "get_wishlist_data tbl = filter wishlist_filter tbl"

definition add_game :: "128 word \<Rightarrow> string \<Rightarrow> body \<Rightarrow> table \<Rightarrow> exn + table" where
  "add_game rnd now b tbl =
     (let gid = str_uuid (uuid4 rnd);
          platform = b ''platform'';
          game_name = b ''game_name'';
          genre = b ''genre'';
          year = b ''year''
      in if \<not> (truthy platform \<and> truthy game_name)
         then Inl (ValueError ''Missing required fields: platform, game_name'')
         else Inr (put_item
                \<lparr>platform = the platform, game_id = gid,
                 attrs = [''game_name'' \<mapsto> to_attr game_name,
                          ''genre'' \<mapsto> to_attr genre,
                          ''year'' \<mapsto> to_attr year,
                          ''status'' \<mapsto> S ''owned'',
                          ''added_date'' \<mapsto> S now]\<rparr> tbl))"

definition add_to_wishlist :: "128 word \<Rightarrow> string \<Rightarrow> body \<Rightarrow> table \<Rightarrow> exn + table" where
  "add_to_wishlist rnd now b tbl =
     (let gid = str_uuid (uuid4 rnd);
          platform = b ''platform'';
          game_name = b ''game_name'';
          genre = b ''genre'';
          year = b ''year''
      in if \<not> (truthy platform \<and> truthy game_name)
         then Inl (ValueError ''Missing required fields: platform, game_name'')
         else Inr (put_item
                \<lparr>platform = the platform, game_id = gid,
                 attrs = [''game_name'' \<mapsto> to_attr game_name,
                          ''genre'' \<mapsto> to_attr genre,
                          ''year'' \<mapsto> to_attr year,
                          ''status'' \<mapsto> S ''wishlist'',
                          ''added_date'' \<mapsto> S now]\<rparr> tbl))"

definition delete_game :: "body \<Rightarrow> table \<Rightarrow> exn + table" where
  "delete_game b tbl =
     (if \<not> (truthy (b ''platform'') \<and> truthy (b ''game_id''))
      then Inl (ValueError ''Missing required fields: platform, game_id'')
      else Inr (delete_item (the (b ''platform'')) (the (b ''game_id'')) tbl))"

definition delete_from_wishlist :: "body \<Rightarrow> table \<Rightarrow> exn + table" where
  "delete_from_wishlist b tbl =
     (if \<not> (truthy (b ''platform'') \<and> truthy (b ''game_id''))
      then Inl (ValueError ''Missing required fields: platform, game_id'')
      else Inr (delete_item (the (b ''platform'')) (the (b ''game_id'')) tbl))"

definition mark_as_purchased :: "body \<Rightarrow> table \<Rightarrow> exn + table" where
  "mark_as_purchased b tbl =
     (if \<not> (truthy (b ''platform'') \<and> truthy (b ''game_id''))
      then Inl (ValueError ''Missing required fields: platform, game_id'')
      else Inr (update_item_set_status (the (b ''platform'')) (the (b ''game_id''))
                  ''owned'' tbl))"

section \<open>The request handler\<close>

text \<open>
  The event of one invocation, as far as the handler reads it. \<open>ev_http\<close> is the
  dictionary \<^verbatim>\<open>event["requestContext"]["http"]\<close> when the event has both keys;
  \<open>ev_httpMethod\<close> and \<open>ev_path\<close> are the top-level fields of the other envelope
  shape; \<open>ev_body\<close> is \<open>None\<close> when the event has no \<^verbatim>\<open>body\<close> key and otherwise what
  \<^verbatim>\<open>urllib.parse.parse_qs\<close> returns for it: the form's field names, each with the list of
  its values.
\<close>

record event =
  ev_http :: "(string \<rightharpoonup> string) option"
  ev_httpMethod :: "string option"
  ev_path :: "string option"
  ev_body :: "(string \<times> string list) list option"

record response =
  statusCode :: int
  headers :: "(string \<times> string) list"
  body :: string

text \<open>
  The values the handler hands to a template, and the template engine: the templates are
  not part of the source, so rendering is a parameter of the handler. It gets the
  template's name and the keyword arguments and gives the page, or raises.
\<close>

datatype tvalue = TItems "item list" | TStrs "string list" | TStr string | TInt int

type_synonym renderer = "string \<Rightarrow> (string \<times> tvalue) list \<Rightarrow> exn + string"

definition render_html :: "renderer \<Rightarrow> string \<Rightarrow> (string \<times> tvalue) list \<Rightarrow> exn + response" where
  "render_html render template_name kwargs =
     (case render template_name kwargs of
        Inl e \<Rightarrow> Inl e
      | Inr html \<Rightarrow>
          Inr \<lparr>statusCode = 200,
               headers = [(''Content-Type'', ''text/html; charset=utf-8'')],
               body = html\<rparr>)"

definition redirect_response :: "string \<Rightarrow> response" where
  "redirect_response location =
     \<lparr>statusCode = 303, headers = [(''Location'', location)], body = []\<rparr>"

text \<open>The method and the path of the event, from whichever envelope shape it has.\<close>

definition method_and_path :: "event \<Rightarrow> exn + (string \<times> string)" where
  "method_and_path ev =
     (case ev_http ev of
        Some h \<Rightarrow>
          (case h ''method'' of
             None \<Rightarrow> Inl (KeyError ''method'')
           | Some m \<Rightarrow>
               (case h ''path'' of
                  None \<Rightarrow> Inl (KeyError ''path'')
                | Some p \<Rightarrow> Inr (m, p)))
      | None \<Rightarrow>
          Inr (case ev_httpMethod ev of None \<Rightarrow> ''GET'' | Some m \<Rightarrow> m,
               case ev_path ev of None \<Rightarrow> ''/'' | Some p \<Rightarrow> p))"

text \<open>The routing prefix \<^verbatim>\<open>/gc\<close> is cut off; an empty path is \<^verbatim>\<open>/\<close>.\<close>

definition strip_prefix :: "string \<Rightarrow> string" where
  "strip_prefix p =
     (let p1 = (if take 3 p = ''/gc'' then drop 3 p else p)
      in if p1 = [] then ''/'' else p1)"

text \<open>
  \<^verbatim>\<open>{k: v[0] for k, v in parse_qs(event["body"]).items()}\<close>: the first value of every
  field, in a dictionary.
\<close>

fun first_values :: "(string \<times> string list) list \<Rightarrow> body \<Rightarrow> exn + body" where
  "first_values [] d = Inr d"
| "first_values ((k, v) # kvs) d =
     (case v of
        [] \<Rightarrow> Inl (IndexError ''list index out of range'')
      | x # _ \<Rightarrow> first_values kvs (d(k \<mapsto> x)))"

definition request_body :: "event \<Rightarrow> exn + body" where
  "request_body ev =
     (case ev_body ev of
        None \<Rightarrow> Inl (KeyError ''body'')
      | Some q \<Rightarrow> first_values q Map.empty)"

text \<open>\<^verbatim>\<open>sorted(set(g["platform"] for g in games))\<close>.\<close>

definition platforms_of :: "item list \<Rightarrow> string list" where
  "platforms_of games = sorted_list_of_set (set (map platform games))"

definition not_found :: "renderer \<Rightarrow> exn + response" where
  "not_found render =
     render_html render ''error.html''
       [(''status_code'', TInt 404), (''message'', TStr ''Not found'')]"

text \<open>
  The body of the handler's \<^verbatim>\<open>try\<close> statement: the dispatch on the method and the
  stripped path. It gives the response or the exception raised, and the table as the
  request leaves it.
\<close>

definition route ::
  "renderer \<Rightarrow> 128 word \<Rightarrow> string \<Rightarrow> string \<Rightarrow> string \<Rightarrow> event \<Rightarrow> table
     \<Rightarrow> (exn + response) \<times> table" where
  "route render rnd now http_method path ev tbl =
     (if http_method = ''GET'' then
        (if path = ''/'' then
           (let games = get_all_games_data tbl;
                platforms = platforms_of games
            in (render_html render ''index.html''
                  [(''games'', TItems games), (''platforms'', TStrs platforms)], tbl))
         else if path = ''/wishlist'' then
           (let wishlist = get_wishlist_data tbl;
                platforms = platforms_of wishlist
            in (render_html render ''wishlist.html''
                  [(''wishlist'', TItems wishlist), (''platforms'', TStrs platforms)], tbl))
         else
           (let platform = dropWhile (\<lambda>c. c = CHR ''/'') path;
                games = get_games_by_platform_data platform tbl;
                platforms = platforms_of games
            in (render_html render ''index.html''
                  [(''games'', TItems games), (''platforms'', TStrs platforms),
                   (''selected_platform'', TStr platform)], tbl)))
      else if http_method = ''POST'' then
        (case request_body ev of
           Inl e \<Rightarrow> (Inl e, tbl)
         | Inr b \<Rightarrow>
             if path = ''/add'' then
               (case add_game rnd now b tbl of
                  Inl e \<Rightarrow> (Inl e, tbl)
                | Inr tbl' \<Rightarrow>
                    (let platform = (case b ''platform'' of None \<Rightarrow> [] | Some p \<Rightarrow> p);
                         redirect_url = (if platform \<noteq> [] then ''/gc/'' @ platform else ''/gc'')
                     in (Inr (redirect_response redirect_url), tbl')))
             else if path = ''/wishlist/add'' then
               (case add_to_wishlist rnd now b tbl of
                  Inl e \<Rightarrow> (Inl e, tbl)
                | Inr tbl' \<Rightarrow> (Inr (redirect_response ''/gc/wishlist''), tbl'))
             else if path = ''/wishlist/purchased'' then
               (case mark_as_purchased b tbl of
                  Inl e \<Rightarrow> (Inl e, tbl)
                | Inr tbl' \<Rightarrow> (Inr (redirect_response ''/gc/wishlist''), tbl'))
             else (not_found render, tbl))
      else if http_method = ''DELETE'' then
        (case request_body ev of
           Inl e \<Rightarrow> (Inl e, tbl)
         | Inr b \<Rightarrow>
             if path = ''/delete'' then
               (case delete_game b tbl of
                  Inl e \<Rightarrow> (Inl e, tbl)
                | Inr tbl' \<Rightarrow>
                    (let platform = (case b ''platform'' of None \<Rightarrow> [] | Some p \<Rightarrow> p);
                         redirect_url = (if platform \<noteq> [] then ''/'' @ platform else ''/'')
                     in (Inr (redirect_response redirect_url), tbl')))
             else if path = ''/wishlist/delete'' then
               (case delete_from_wishlist b tbl of
                  Inl e \<Rightarrow> (Inl e, tbl)
                | Inr tbl' \<Rightarrow> (Inr (redirect_response ''/wishlist''), tbl'))
             else (not_found render, tbl))
      else (not_found render, tbl))"

text \<open>
  The handler: an exception of the dispatch is caught and shown on the error page; one
  raised before the \<^verbatim>\<open>try\<close> statement, or by the rendering of the error page, leaves
  the handler.
\<close>

definition error_page :: "renderer \<Rightarrow> exn \<Rightarrow> exn + response" where
  "error_page render e =
     render_html render ''error.html''
       [(''status_code'', TInt 500), (''message'', TStr (str_exn e))]"

definition lambda_handler ::
  "renderer \<Rightarrow> 128 word \<Rightarrow> string \<Rightarrow> event \<Rightarrow> table \<Rightarrow> (exn + response) \<times> table" where
  "lambda_handler render rnd now ev tbl =
     (case method_and_path ev of
        Inl e \<Rightarrow> (Inl e, tbl)
      | Inr (http_method, path0) \<Rightarrow>
          (case route render rnd now http_method (strip_prefix path0) ev tbl of
             (Inl e, tbl') \<Rightarrow> (error_page render e, tbl')
           | (Inr r, tbl') \<Rightarrow> (Inr r, tbl')))"

section \<open>Sequences of calls\<close>








section \<open>Sample data\<close>

text \<open>
  A table of two owned games (one with no status attribute) and one wishlist entry, some
  form bodies, a time stamp, and a template engine that prints the message it is given,
  or else the template's name.
\<close>

definition metroid :: item where
  "metroid = \<lparr>platform = ''SNES'', game_id = ''m-1'',
              attrs = [''game_name'' \<mapsto> S ''Metroid'', ''status'' \<mapsto> S ''owned'']\<rparr>"

definition astro :: item where
  "astro = \<lparr>platform = ''PS5'', game_id = ''a-1'',
            attrs = [''game_name'' \<mapsto> S ''Astro Bot'']\<rparr>"

definition chrono :: item where
  "chrono = \<lparr>platform = ''SNES'', game_id = ''c-1'',
             attrs = [''game_name'' \<mapsto> S ''Chrono Trigger'', ''status'' \<mapsto> S ''wishlist'']\<rparr>"

definition sample_table :: table where
  "sample_table = [metroid, astro, chrono]"




definition metroid_key_body :: body where
  "metroid_key_body = [''platform'' \<mapsto> ''SNES'', ''game_id'' \<mapsto> ''m-1'']"




definition add_without_platform_event :: event where
  "add_without_platform_event =
     \<lparr>ev_http = None, ev_httpMethod = Some ''POST'', ev_path = Some ''/gc/add'',
      ev_body = Some [(''game_name'', [''Zelda''])]\<rparr>"

definition wishlist_add_empty_event :: event where
  "wishlist_add_empty_event =
     \<lparr>ev_http = Some [''method'' \<mapsto> ''POST'', ''path'' \<mapsto> ''/wishlist/add''],
      ev_httpMethod = None, ev_path = None, ev_body = Some []\<rparr>"


definition delete_metroid_event :: event where
  "delete_metroid_event =
     \<lparr>ev_http = None, ev_httpMethod = Some ''DELETE'', ev_path = Some ''/gc/delete'',
      ev_body = Some [(''platform'', [''SNES'']), (''game_id'', [''m-1''])]\<rparr>"

definition wishlist_delete_chrono_event :: event where
  "wishlist_delete_chrono_event =
     \<lparr>ev_http = None, ev_httpMethod = Some ''DELETE'', ev_path = Some ''/gc/wishlist/delete'',
      ev_body = Some [(''platform'', [''SNES'']), (''game_id'', [''c-1''])]\<rparr>"

definition delete_without_platform_event :: event where
  "delete_without_platform_event =
     \<lparr>ev_http = None, ev_httpMethod = Some ''DELETE'', ev_path = Some ''/gc/delete'',
      ev_body = Some [(''game_id'', [''m-1''])]\<rparr>"

definition wishlist_delete_without_id_event :: event where
  "wishlist_delete_without_id_event =
     \<lparr>ev_http = None, ev_httpMethod = Some ''DELETE'', ev_path = Some ''/gc/wishlist/delete'',
      ev_body = Some [(''platform'', [''SNES''])]\<rparr>"


definition put_event :: event where
  "put_event =
     \<lparr>ev_http = None, ev_httpMethod = Some ''PUT'', ev_path = Some ''/gc/add'', ev_body = None\<rparr>"

definition sample_now :: string where
  "sample_now = ''2024-05-01T12:00:00''"

definition sample_render :: renderer where
  "sample_render template_name kwargs =
     Inr (case map_of kwargs ''message'' of Some (TStr m) \<Rightarrow> m | _ \<Rightarrow> template_name)"

section \<open>Facts about the store and the identifiers\<close>



















subsection \<open>A key that is in no owned listing\<close>









section \<open>Creating an owned game\<close>




section \<open>From the wishlist to the owned games\<close>




section \<open>Facts about the handler\<close>

lemma lambda_handler_route:
  "method_and_path ev = Inr (m, path0) \<Longrightarrow>
     lambda_handler render rnd now ev tbl =
       (case route render rnd now m (strip_prefix path0) ev tbl of
          (Inl e, tbl') \<Rightarrow> (error_page render e, tbl')
        | (Inr r, tbl') \<Rightarrow> (Inr r, tbl'))"
  by (simp add: lambda_handler_def)

lemma add_game_missing:
  "\<not> (truthy (b ''platform'') \<and> truthy (b ''game_name'')) \<Longrightarrow>
     add_game rnd now b tbl = Inl (ValueError ''Missing required fields: platform, game_name'')"
  by (simp add: add_game_def Let_def)

lemma add_to_wishlist_missing:
  "\<not> (truthy (b ''platform'') \<and> truthy (b ''game_name'')) \<Longrightarrow>
     add_to_wishlist rnd now b tbl
       = Inl (ValueError ''Missing required fields: platform, game_name'')"
  by (simp add: add_to_wishlist_def Let_def)


lemma delete_game_present:
  "b ''platform'' = Some p \<Longrightarrow> p \<noteq> [] \<Longrightarrow> b ''game_id'' = Some g \<Longrightarrow> g \<noteq> [] \<Longrightarrow>
     delete_game b tbl = Inr (delete_item p g tbl)"
  by (simp add: delete_game_def truthy_def)

lemma delete_from_wishlist_present:
  "b ''platform'' = Some p \<Longrightarrow> p \<noteq> [] \<Longrightarrow> b ''game_id'' = Some g \<Longrightarrow> g \<noteq> [] \<Longrightarrow>
     delete_from_wishlist b tbl = Inr (delete_item p g tbl)"
  by (simp add: delete_from_wishlist_def truthy_def)


lemma render_html_status:
  "render_html render t kw = Inr r \<Longrightarrow> statusCode r = 200"
  by (auto simp: render_html_def split: sum.splits)

lemma route_status:
  assumes "route render rnd now m path ev tbl = (Inr r, tbl')"
  shows "statusCode r = 200 \<or> statusCode r = 303"
  using assms
  by (auto simp: route_def Let_def not_found_def redirect_response_def
        dest: render_html_status split: if_splits sum.splits)

section \<open>Validation errors of the create requests\<close>

text \<open>
  Claim C3. A POST request to \<^verbatim>\<open>/add\<close> or \<^verbatim>\<open>/wishlist/add\<close> whose body has no
  platform or no game name (absent or empty): both creating functions raise the
  \<^verbatim>\<open>ValueError\<close> with the text \<^verbatim>\<open>Missing required fields: platform, game_name\<close>,
  the handler catches it, leaves the table as it is and answers with the page of
  \<^verbatim>\<open>error.html\<close>, which gets 500 as the variable \<^verbatim>\<open>status_code\<close> and that text as
  the variable \<^verbatim>\<open>message\<close>. The status code of the response itself is 200.
\<close>

theorem create_missing_fields:
  assumes "method_and_path ev = Inr (''POST'', path0)"
    and "strip_prefix path0 = ''/add'' \<or> strip_prefix path0 = ''/wishlist/add''"
    and "request_body ev = Inr b"
    and "\<not> (truthy (b ''platform'') \<and> truthy (b ''game_name''))"
  shows "add_game rnd now b tbl
           = Inl (ValueError ''Missing required fields: platform, game_name'')
       \<and> add_to_wishlist rnd now b tbl
           = Inl (ValueError ''Missing required fields: platform, game_name'')
       \<and> lambda_handler render rnd now ev tbl
           = (render_html render ''error.html''
                [(''status_code'', TInt 500),
                 (''message'', TStr ''Missing required fields: platform, game_name'')], tbl)
       \<and> (\<forall>html. render ''error.html''
                [(''status_code'', TInt 500),
                 (''message'', TStr ''Missing required fields: platform, game_name'')] = Inr html
            \<longrightarrow> fst (lambda_handler render rnd now ev tbl)
                = Inr \<lparr>statusCode = 200,
                       headers = [(''Content-Type'', ''text/html; charset=utf-8'')],
                       body = html\<rparr>)"
proof -
  have a: "add_game rnd now b tbl
             = Inl (ValueError ''Missing required fields: platform, game_name'')"
    using assms(4) by (rule add_game_missing)
  have w: "add_to_wishlist rnd now b tbl
             = Inl (ValueError ''Missing required fields: platform, game_name'')"
    using assms(4) by (rule add_to_wishlist_missing)
  have r: "route render rnd now ''POST'' (strip_prefix path0) ev tbl
             = (Inl (ValueError ''Missing required fields: platform, game_name''), tbl)"
    using assms(2,3) a w by (auto simp: route_def)
  have h: "lambda_handler render rnd now ev tbl
           = (render_html render ''error.html''
                [(''status_code'', TInt 500),
                 (''message'', TStr ''Missing required fields: platform, game_name'')], tbl)"
    using lambda_handler_route [OF assms(1)] r by (simp add: error_page_def)
  show ?thesis
    using a w h by (simp add: render_html_def)
qed

theorem create_missing_fields_witness:
  "method_and_path add_without_platform_event = Inr (''POST'', ''/gc/add'')
   \<and> (strip_prefix ''/gc/add'' = ''/add'' \<or> strip_prefix ''/gc/add'' = ''/wishlist/add'')
   \<and> request_body add_without_platform_event = Inr [''game_name'' \<mapsto> ''Zelda'']
   \<and> \<not> (truthy ([''game_name'' \<mapsto> ''Zelda''] ''platform'')
          \<and> truthy ([''game_name'' \<mapsto> ''Zelda''] ''game_name''))
   \<and> lambda_handler sample_render 0 sample_now add_without_platform_event sample_table
       = (Inr \<lparr>statusCode = 200,
               headers = [(''Content-Type'', ''text/html; charset=utf-8'')],
               body = ''Missing required fields: platform, game_name''\<rparr>, sample_table)"
proof -
  have h1: "method_and_path add_without_platform_event = Inr (''POST'', ''/gc/add'')"
    by (simp add: method_and_path_def add_without_platform_event_def)
  have h2: "strip_prefix ''/gc/add'' = ''/add'' \<or> strip_prefix ''/gc/add'' = ''/wishlist/add''"
    by (simp add: strip_prefix_def)
  have h3: "request_body add_without_platform_event = Inr [''game_name'' \<mapsto> ''Zelda'']"
    by (simp add: request_body_def add_without_platform_event_def)
  have h4: "\<not> (truthy ([''game_name'' \<mapsto> ''Zelda''] ''platform'')
          \<and> truthy ([''game_name'' \<mapsto> ''Zelda''] ''game_name''))"
    by (simp add: truthy_def)
  from create_missing_fields [OF h1 h2 h3 h4, of 0 sample_now sample_table sample_render]
  have "lambda_handler sample_render 0 sample_now add_without_platform_event sample_table
       = (Inr \<lparr>statusCode = 200,
               headers = [(''Content-Type'', ''text/html; charset=utf-8'')],
               body = ''Missing required fields: platform, game_name''\<rparr>, sample_table)"
    by (simp add: render_html_def sample_render_def)
  with h1 h2 h3 h4 show ?thesis by blast
qed

text \<open>The response to such a request has the status code 200, not 500.\<close>

theorem create_missing_fields_status_200:
  "\<exists>r. fst (lambda_handler sample_render 0 sample_now wishlist_add_empty_event sample_table) = Inr r
      \<and> statusCode r = 200 \<and> statusCode r \<noteq> 500
      \<and> body r = ''Missing required fields: platform, game_name''"
  by (simp add: lambda_handler_def method_and_path_def wishlist_add_empty_event_def
        strip_prefix_def route_def request_body_def add_to_wishlist_def Let_def truthy_def
        error_page_def render_html_def sample_render_def)

section \<open>The redirects\<close>




text \<open>
  Claim C6. A DELETE request whose body has a non-empty platform and a non-empty
  identifier: to \<^verbatim>\<open>/delete\<close> it deletes the record and answers with a 303 redirect to
  \<^verbatim>\<open>/\<close> followed by the platform, which is not the \<^verbatim>\<open>/gc/\<close>-prefixed path a POST
  redirects to; to \<^verbatim>\<open>/wishlist/delete\<close> it deletes the record and redirects to
  \<^verbatim>\<open>/wishlist\<close>. When the platform or the identifier is absent or empty, both paths
  answer with the error page and leave the table as it is; the target \<^verbatim>\<open>/\<close> is never
  sent.
\<close>

theorem delete_redirects:
  assumes "method_and_path ev = Inr (''DELETE'', path0)"
    and "request_body ev = Inr b"
  shows "(b ''platform'' = Some p \<and> p \<noteq> [] \<and> b ''game_id'' = Some g \<and> g \<noteq> []
            \<and> strip_prefix path0 = ''/delete'' \<longrightarrow>
            lambda_handler render rnd now ev tbl
              = (Inr \<lparr>statusCode = 303, headers = [(''Location'', ''/'' @ p)], body = []\<rparr>,
                 delete_item p g tbl)
            \<and> ''/'' @ p \<noteq> ''/gc/'' @ p)
       \<and> (b ''platform'' = Some p \<and> p \<noteq> [] \<and> b ''game_id'' = Some g \<and> g \<noteq> []
            \<and> strip_prefix path0 = ''/wishlist/delete'' \<longrightarrow>
            lambda_handler render rnd now ev tbl
              = (Inr \<lparr>statusCode = 303, headers = [(''Location'', ''/wishlist'')], body = []\<rparr>,
                 delete_item p g tbl))
       \<and> (\<not> (truthy (b ''platform'') \<and> truthy (b ''game_id''))
            \<and> (strip_prefix path0 = ''/delete'' \<or> strip_prefix path0 = ''/wishlist/delete'') \<longrightarrow>
            lambda_handler render rnd now ev tbl
              = (error_page render
                   (ValueError ''Missing required fields: platform, game_id''), tbl))"
proof (intro conjI impI)
  assume ok: "b ''platform'' = Some p \<and> p \<noteq> [] \<and> b ''game_id'' = Some g \<and> g \<noteq> []
            \<and> strip_prefix path0 = ''/delete''"
  then have d: "delete_game b tbl = Inr (delete_item p g tbl)"
    by (simp add: delete_game_present)
  have "route render rnd now ''DELETE'' (strip_prefix path0) ev tbl
          = (Inr (redirect_response (''/'' @ p)), delete_item p g tbl)"
    using assms(2) d ok by (simp add: route_def)
  then show "lambda_handler render rnd now ev tbl
              = (Inr \<lparr>statusCode = 303, headers = [(''Location'', ''/'' @ p)], body = []\<rparr>,
                 delete_item p g tbl)"
    using lambda_handler_route [OF assms(1)] by (simp add: redirect_response_def)
next
  have "length (''/'' @ p) \<noteq> length (''/gc/'' @ p)" by simp
  then show "''/'' @ p \<noteq> ''/gc/'' @ p" by metis
next
  assume ok: "b ''platform'' = Some p \<and> p \<noteq> [] \<and> b ''game_id'' = Some g \<and> g \<noteq> []
            \<and> strip_prefix path0 = ''/wishlist/delete''"
  then have d: "delete_from_wishlist b tbl = Inr (delete_item p g tbl)"
    by (simp add: delete_from_wishlist_present)
  have "route render rnd now ''DELETE'' (strip_prefix path0) ev tbl
          = (Inr (redirect_response ''/wishlist''), delete_item p g tbl)"
    using assms(2) d ok by (simp add: route_def)
  then show "lambda_handler render rnd now ev tbl
              = (Inr \<lparr>statusCode = 303, headers = [(''Location'', ''/wishlist'')], body = []\<rparr>,
                 delete_item p g tbl)"
    using lambda_handler_route [OF assms(1)] by (simp add: redirect_response_def)
next
  assume bad: "\<not> (truthy (b ''platform'') \<and> truthy (b ''game_id''))
            \<and> (strip_prefix path0 = ''/delete'' \<or> strip_prefix path0 = ''/wishlist/delete'')"
  then have d: "delete_game b tbl
                  = Inl (ValueError ''Missing required fields: platform, game_id'')"
    and w: "delete_from_wishlist b tbl
                  = Inl (ValueError ''Missing required fields: platform, game_id'')"
    by (simp_all add: delete_game_def delete_from_wishlist_def)
  have "route render rnd now ''DELETE'' (strip_prefix path0) ev tbl
          = (Inl (ValueError ''Missing required fields: platform, game_id''), tbl)"
    using assms(2) d w bad by (auto simp: route_def)
  then show "lambda_handler render rnd now ev tbl
              = (error_page render
                   (ValueError ''Missing required fields: platform, game_id''), tbl)"
    using lambda_handler_route [OF assms(1)] by simp
qed

theorem delete_redirects_witness:
  "method_and_path delete_metroid_event = Inr (''DELETE'', ''/gc/delete'')
   \<and> request_body delete_metroid_event = Inr metroid_key_body
   \<and> metroid_key_body ''platform'' = Some ''SNES'' \<and> ''SNES'' \<noteq> []
   \<and> metroid_key_body ''game_id'' = Some ''m-1'' \<and> ''m-1'' \<noteq> []
   \<and> strip_prefix ''/gc/delete'' = ''/delete''
   \<and> lambda_handler sample_render 0 sample_now delete_metroid_event sample_table
       = (Inr \<lparr>statusCode = 303, headers = [(''Location'', ''/SNES'')], body = []\<rparr>,
          [astro, chrono])
   \<and> method_and_path wishlist_delete_chrono_event = Inr (''DELETE'', ''/gc/wishlist/delete'')
   \<and> request_body wishlist_delete_chrono_event
       = Inr [''platform'' \<mapsto> ''SNES'', ''game_id'' \<mapsto> ''c-1'']
   \<and> strip_prefix ''/gc/wishlist/delete'' = ''/wishlist/delete''
   \<and> lambda_handler sample_render 0 sample_now wishlist_delete_chrono_event sample_table
       = (Inr \<lparr>statusCode = 303, headers = [(''Location'', ''/wishlist'')], body = []\<rparr>,
          [metroid, astro])
   \<and> method_and_path delete_without_platform_event = Inr (''DELETE'', ''/gc/delete'')
   \<and> request_body delete_without_platform_event = Inr [''game_id'' \<mapsto> ''m-1'']
   \<and> \<not> (truthy ([''game_id'' \<mapsto> ''m-1''] ''platform'')
          \<and> truthy ([''game_id'' \<mapsto> ''m-1''] ''game_id''))
   \<and> lambda_handler sample_render 0 sample_now delete_without_platform_event sample_table
       = (error_page sample_render
            (ValueError ''Missing required fields: platform, game_id''), sample_table)"
proof -
  have h1: "method_and_path delete_metroid_event = Inr (''DELETE'', ''/gc/delete'')"
    by (simp add: method_and_path_def delete_metroid_event_def)
  have h2: "request_body delete_metroid_event = Inr metroid_key_body"
    by (simp add: request_body_def delete_metroid_event_def metroid_key_body_def)
  have h3: "metroid_key_body ''platform'' = Some ''SNES'' \<and> ''SNES'' \<noteq> []
     \<and> metroid_key_body ''game_id'' = Some ''m-1'' \<and> ''m-1'' \<noteq> []
     \<and> strip_prefix ''/gc/delete'' = ''/delete''"
    by (simp add: metroid_key_body_def strip_prefix_def)
  have d1: "delete_item ''SNES'' ''m-1'' sample_table = [astro, chrono]"
    by (simp add: delete_item_def sample_table_def key_of_def metroid_def astro_def chrono_def)
  from delete_redirects [OF h1 h2, of "''SNES''" "''m-1''" sample_render 0 sample_now sample_table]
    h3 d1
  have a: "lambda_handler sample_render 0 sample_now delete_metroid_event sample_table
       = (Inr \<lparr>statusCode = 303, headers = [(''Location'', ''/SNES'')], body = []\<rparr>,
          [astro, chrono])"
    by simp
  have k1: "method_and_path wishlist_delete_chrono_event
              = Inr (''DELETE'', ''/gc/wishlist/delete'')"
    by (simp add: method_and_path_def wishlist_delete_chrono_event_def)
  have k2: "request_body wishlist_delete_chrono_event
       = Inr [''platform'' \<mapsto> ''SNES'', ''game_id'' \<mapsto> ''c-1'']"
    by (simp add: request_body_def wishlist_delete_chrono_event_def)
  have k3: "strip_prefix ''/gc/wishlist/delete'' = ''/wishlist/delete''"
    by (simp add: strip_prefix_def)
  have d2: "delete_item ''SNES'' ''c-1'' sample_table = [metroid, astro]"
    by (simp add: delete_item_def sample_table_def key_of_def metroid_def astro_def chrono_def)
  from delete_redirects [OF k1 k2, of "''SNES''" "''c-1''" sample_render 0 sample_now sample_table]
    k3 d2
  have b: "lambda_handler sample_render 0 sample_now wishlist_delete_chrono_event sample_table
       = (Inr \<lparr>statusCode = 303, headers = [(''Location'', ''/wishlist'')], body = []\<rparr>,
          [metroid, astro])"
    by simp
  have m1: "method_and_path delete_without_platform_event = Inr (''DELETE'', ''/gc/delete'')"
    by (simp add: method_and_path_def delete_without_platform_event_def)
  have m2: "request_body delete_without_platform_event = Inr [''game_id'' \<mapsto> ''m-1'']"
    by (simp add: request_body_def delete_without_platform_event_def)
  have m3: "\<not> (truthy ([''game_id'' \<mapsto> ''m-1''] ''platform'')
          \<and> truthy ([''game_id'' \<mapsto> ''m-1''] ''game_id''))"
    by (simp add: truthy_def)
  from delete_redirects [OF m1 m2, of "''SNES''" "''m-1''" sample_render 0 sample_now sample_table]
    m3 h3
  have c: "lambda_handler sample_render 0 sample_now delete_without_platform_event sample_table
       = (error_page sample_render
            (ValueError ''Missing required fields: platform, game_id''), sample_table)"
    by simp
  from h1 h2 h3 a k1 k2 k3 b m1 m2 m3 c show ?thesis by blast
qed

text \<open>
  A DELETE with a body that lacks a field is answered by the error page, on both paths.
\<close>

theorem delete_invalid_body_no_redirect:
  "lambda_handler sample_render 0 sample_now wishlist_delete_without_id_event sample_table
     = (Inr \<lparr>statusCode = 200,
             headers = [(''Content-Type'', ''text/html; charset=utf-8'')],
             body = ''Missing required fields: platform, game_id''\<rparr>, sample_table)
   \<and> lambda_handler sample_render 0 sample_now wishlist_delete_without_id_event sample_table
       \<noteq> (Inr (redirect_response ''/wishlist''), sample_table)
   \<and> lambda_handler sample_render 0 sample_now delete_without_platform_event sample_table
     = (Inr \<lparr>statusCode = 200,
             headers = [(''Content-Type'', ''text/html; charset=utf-8'')],
             body = ''Missing required fields: platform, game_id''\<rparr>, sample_table)
   \<and> lambda_handler sample_render 0 sample_now delete_without_platform_event sample_table
       \<noteq> (Inr (redirect_response ''/''), sample_table)"
  by (simp add: lambda_handler_def method_and_path_def wishlist_delete_without_id_event_def
        delete_without_platform_event_def
        strip_prefix_def route_def request_body_def delete_from_wishlist_def delete_game_def
        truthy_def error_page_def render_html_def sample_render_def redirect_response_def)

section \<open>Deleting\<close>



text \<open>
  Claim C8. \<^verbatim>\<open>delete_game\<close> and \<^verbatim>\<open>delete_from_wishlist\<close> are the same function of the
  body and the table: when the platform or the identifier is absent or empty both raise
  the \<^verbatim>\<open>ValueError\<close> with the text \<^verbatim>\<open>Missing required fields: platform, game_id\<close>,
  and otherwise both delete by the key of the two and give the same table. (The two lines
  they print differ; output is not in the model.)
\<close>

theorem delete_functions_equal:
  "delete_game = delete_from_wishlist
   \<and> (\<not> (truthy (b ''platform'') \<and> truthy (b ''game_id'')) \<longrightarrow>
        delete_game b tbl = Inl (ValueError ''Missing required fields: platform, game_id'')
      \<and> delete_from_wishlist b tbl
          = Inl (ValueError ''Missing required fields: platform, game_id''))
   \<and> (truthy (b ''platform'') \<and> truthy (b ''game_id'') \<longrightarrow>
        delete_game b tbl = Inr (delete_item (the (b ''platform'')) (the (b ''game_id'')) tbl)
      \<and> delete_from_wishlist b tbl
          = Inr (delete_item (the (b ''platform'')) (the (b ''game_id'')) tbl))"
proof (intro conjI impI)
  show "delete_game = delete_from_wishlist"
    by (intro ext) (simp add: delete_game_def delete_from_wishlist_def)
qed (simp_all add: delete_game_def delete_from_wishlist_def)

theorem delete_functions_equal_witness:
  "delete_game = delete_from_wishlist
   \<and> \<not> (truthy ([''game_id'' \<mapsto> ''m-1''] ''platform'')
          \<and> truthy ([''game_id'' \<mapsto> ''m-1''] ''game_id''))
   \<and> delete_game [''game_id'' \<mapsto> ''m-1''] sample_table
       = Inl (ValueError ''Missing required fields: platform, game_id'')
   \<and> delete_from_wishlist [''game_id'' \<mapsto> ''m-1''] sample_table
       = Inl (ValueError ''Missing required fields: platform, game_id'')
   \<and> truthy (metroid_key_body ''platform'') \<and> truthy (metroid_key_body ''game_id'')
   \<and> delete_game metroid_key_body sample_table = Inr [astro, chrono]
   \<and> delete_from_wishlist metroid_key_body sample_table = Inr [astro, chrono]"
proof -
  have h1: "\<not> (truthy ([''game_id'' \<mapsto> ''m-1''] ''platform'')
          \<and> truthy ([''game_id'' \<mapsto> ''m-1''] ''game_id''))"
    by (simp add: truthy_def)
  have h2: "truthy (metroid_key_body ''platform'') \<and> truthy (metroid_key_body ''game_id'')"
    by (simp add: truthy_def metroid_key_body_def)
  have d: "delete_item (the (metroid_key_body ''platform'')) (the (metroid_key_body ''game_id''))
             sample_table = [astro, chrono]"
    by (simp add: delete_item_def sample_table_def key_of_def metroid_key_body_def
          metroid_def astro_def chrono_def)
  from delete_functions_equal [of "[''game_id'' \<mapsto> ''m-1'']" sample_table] h1
  have a: "delete_game = delete_from_wishlist
     \<and> delete_game [''game_id'' \<mapsto> ''m-1''] sample_table
       = Inl (ValueError ''Missing required fields: platform, game_id'')
     \<and> delete_from_wishlist [''game_id'' \<mapsto> ''m-1''] sample_table
       = Inl (ValueError ''Missing required fields: platform, game_id'')"
    by blast
  from delete_functions_equal [of metroid_key_body sample_table] h2 d
  have b: "delete_game metroid_key_body sample_table = Inr [astro, chrono]
     \<and> delete_from_wishlist metroid_key_body sample_table = Inr [astro, chrono]"
    by simp
  from h1 h2 a b show ?thesis by blast
qed

section \<open>Purchasing under a key the table does not have\<close>



section \<open>The page of all games\<close>



section \<open>Status codes\<close>

text \<open>
  Claim C9. Every response the handler returns has the status code 200 or 303. A rendered
  page always has 200: the page for an unknown route is \<^verbatim>\<open>error.html\<close> with 404 as
  the variable \<^verbatim>\<open>status_code\<close>, the page for a caught exception is \<^verbatim>\<open>error.html\<close>
  with 500 as that variable, and both come in a response with the status code 200.
\<close>

theorem status_200_or_303:
  "(\<forall>r. fst (lambda_handler render rnd now ev tbl) = Inr r
        \<longrightarrow> statusCode r = 200 \<or> statusCode r = 303)
   \<and> (\<forall>t kw r. render_html render t kw = Inr r \<longrightarrow> statusCode r = 200)
   \<and> not_found render
       = render_html render ''error.html''
           [(''status_code'', TInt 404), (''message'', TStr ''Not found'')]
   \<and> error_page render e
       = render_html render ''error.html''
           [(''status_code'', TInt 500), (''message'', TStr (str_exn e))]
   \<and> (\<forall>m path0. method_and_path ev = Inr (m, path0)
         \<and> m \<noteq> ''GET'' \<and> m \<noteq> ''POST'' \<and> m \<noteq> ''DELETE''
        \<longrightarrow> lambda_handler render rnd now ev tbl
            = ((case not_found render of Inl e \<Rightarrow> error_page render e | Inr r \<Rightarrow> Inr r), tbl))"
proof (intro conjI allI impI)
  fix r assume a: "fst (lambda_handler render rnd now ev tbl) = Inr r"
  show "statusCode r = 200 \<or> statusCode r = 303"
  proof (cases "method_and_path ev")
    case (Inl e)
    then show ?thesis using a by (simp add: lambda_handler_def)
  next
    case (Inr mp)
    obtain m path0 where mp: "mp = (m, path0)" by (cases mp)
    obtain res tbl' where rt: "route render rnd now m (strip_prefix path0) ev tbl = (res, tbl')"
      by (cases "route render rnd now m (strip_prefix path0) ev tbl")
    show ?thesis
    proof (cases res)
      case (Inl e)
      then have "error_page render e = Inr r"
        using a Inr mp rt by (simp add: lambda_handler_def)
      then show ?thesis
        using render_html_status by (auto simp: error_page_def)
    next
      case (Inr r')
      then have "r' = r"
        using a \<open>method_and_path ev = Inr mp\<close> mp rt by (simp add: lambda_handler_def)
      then show ?thesis
        using route_status rt Inr by blast
    qed
  qed
next
  fix t kw r assume "render_html render t kw = Inr r"
  then show "statusCode r = 200" by (rule render_html_status)
next
  show "not_found render
       = render_html render ''error.html''
           [(''status_code'', TInt 404), (''message'', TStr ''Not found'')]"
    by (simp add: not_found_def)
next
  show "error_page render e
       = render_html render ''error.html''
           [(''status_code'', TInt 500), (''message'', TStr (str_exn e))]"
    by (simp add: error_page_def)
next
  fix m path0
  assume a: "method_and_path ev = Inr (m, path0)
         \<and> m \<noteq> ''GET'' \<and> m \<noteq> ''POST'' \<and> m \<noteq> ''DELETE''"
  then have "route render rnd now m (strip_prefix path0) ev tbl = (not_found render, tbl)"
    by (simp add: route_def)
  then show "lambda_handler render rnd now ev tbl
            = ((case not_found render of Inl e \<Rightarrow> error_page render e | Inr r \<Rightarrow> Inr r), tbl)"
    using a by (simp add: lambda_handler_def split: sum.splits)
qed

theorem status_200_or_303_witness:
  "fst (lambda_handler sample_render 0 sample_now put_event sample_table)
     = Inr \<lparr>statusCode = 200,
            headers = [(''Content-Type'', ''text/html; charset=utf-8'')],
            body = ''Not found''\<rparr>
   \<and> (statusCode \<lparr>statusCode = 200,
            headers = [(''Content-Type'', ''text/html; charset=utf-8'')],
            body = ''Not found''\<rparr> = 200
      \<or> statusCode \<lparr>statusCode = 200,
            headers = [(''Content-Type'', ''text/html; charset=utf-8'')],
            body = ''Not found''\<rparr> = 303)
   \<and> method_and_path put_event = Inr (''PUT'', ''/gc/add'')
   \<and> ''PUT'' \<noteq> ''GET'' \<and> ''PUT'' \<noteq> ''POST'' \<and> ''PUT'' \<noteq> ''DELETE''
   \<and> lambda_handler sample_render 0 sample_now put_event sample_table
       = ((case not_found sample_render of
             Inl e \<Rightarrow> error_page sample_render e | Inr r \<Rightarrow> Inr r), sample_table)"
proof -
  have h1: "fst (lambda_handler sample_render 0 sample_now put_event sample_table)
     = Inr \<lparr>statusCode = 200,
            headers = [(''Content-Type'', ''text/html; charset=utf-8'')],
            body = ''Not found''\<rparr>"
    by (simp add: lambda_handler_def method_and_path_def put_event_def strip_prefix_def
          route_def not_found_def render_html_def sample_render_def)
  have h2: "method_and_path put_event = Inr (''PUT'', ''/gc/add'')
     \<and> ''PUT'' \<noteq> ''GET'' \<and> ''PUT'' \<noteq> ''POST'' \<and> ''PUT'' \<noteq> ''DELETE''"
    by (simp add: method_and_path_def put_event_def)
  note t = status_200_or_303 [of sample_render 0 sample_now put_event sample_table]
  from t h1 have a: "statusCode \<lparr>statusCode = 200,
            headers = [(''Content-Type'', ''text/html; charset=utf-8'')],
            body = ''Not found''\<rparr> = 200
      \<or> statusCode \<lparr>statusCode = 200,
            headers = [(''Content-Type'', ''text/html; charset=utf-8'')],
            body = ''Not found''\<rparr> = 303"
    by blast
  from t h2 have b: "lambda_handler sample_render 0 sample_now put_event sample_table
       = ((case not_found sample_render of
             Inl e \<Rightarrow> error_page sample_render e | Inr r \<Rightarrow> Inr r), sample_table)"
    by blast
  from h1 h2 a b show ?thesis by blast
qed

end
